theory Spec2Isabelle
  imports Main "HOL-Library.Word"
begin

section \<open>The ABI type model (accounts/abi/type.go)\<close>

text \<open>
  Go's \<open>int\<close> is modelled by \<open>int\<close>: type sizes, element counts and buffer lengths of the
  codec stay far below \<open>2^63\<close>. A byte is an \<open>8 word\<close>, a byte slice a list of bytes.
\<close>

type_synonym byte = "8 word"

text \<open>
  The reflection types the codec builds and inspects (package \<open>reflect\<close>), as far as the codec
  distinguishes them. \<open>GoBigInt\<close> is \<open>*big.Int\<close>; named types (\<open>common.Address\<close>) are
  identified with their underlying array type.
\<close>

datatype gotype =
    GoBool
  | GoInt8 | GoInt16 | GoInt32 | GoInt64 | GoInt
  | GoUint8 | GoUint16 | GoUint32 | GoUint64 | GoUint
  | GoBigInt
  | GoString
  | GoSlice gotype
  | GoArray int gotype
  | GoStruct "(string \<times> gotype) list"

text \<open>
  The type enumerator. The kinds without children are the tags of an elementary \<open>Type\<close>;
  \<open>SliceTy\<close>, \<open>ArrayTy\<close> and \<open>TupleTy\<close> are the constructors of \<open>Type\<close> below.
\<close>

datatype elementary =
    IntTy | UintTy | BoolTy | StringTy | AddressTy | FixedBytesTy | BytesTy
  | HashTy | FixedPointTy | FunctionTy

text \<open>
  \<open>Type\<close> is the struct \<open>Type\<close> read as the tagged union it encodes: \<open>Elem\<close> is set exactly
  for \<open>SliceTy\<close> and \<open>ArrayTy\<close>, the tuple fields exactly for \<open>TupleTy\<close> (this is how
  \<open>NewType\<close>, the only constructor of the package, fills the struct).
  Fields, in order:
  \<^item> \<open>Elementary T Size stringKind\<close>
  \<^item> \<open>SliceTy Elem stringKind\<close>
  \<^item> \<open>ArrayTy Size Elem stringKind\<close>
  \<^item> \<open>TupleTy TupleElems TupleRawNames TupleType stringKind TupleRawName\<close>
\<close>

datatype Type =
    Elementary elementary int string
  | SliceTy Type string
  | ArrayTy int Type string
  | TupleTy "Type list" "string list" gotype string string


fun isArrayTy :: "Type \<Rightarrow> bool" where
  "isArrayTy (ArrayTy n e s) = True"
| "isArrayTy t = False"

fun isSliceTy :: "Type \<Rightarrow> bool" where
  "isSliceTy (SliceTy e s) = True"
| "isSliceTy t = False"

fun isTupleTy :: "Type \<Rightarrow> bool" where
  "isTupleTy (TupleTy es ns st s rn) = True"
| "isTupleTy t = False"


text \<open>
  \<open>isDynamicType\<close>: for a tuple, the loop returns true at the first dynamic field and false
  after the last; otherwise the disjunction of the source.
\<close>

fun isDynamicType :: "Type \<Rightarrow> bool" where
  "isDynamicType (TupleTy es ns st s rn) = list_ex isDynamicType es"
| "isDynamicType (Elementary k sz s) = (k = StringTy \<or> k = BytesTy)"
| "isDynamicType (SliceTy e s) = True"
| "isDynamicType (ArrayTy n e s) = isDynamicType e"

text \<open>
  \<open>getTypeSize\<close>: a static array, a static tuple (the running \<open>total\<close> of the loop is the
  left fold), and 32 for everything else.
\<close>

fun getTypeSize :: "Type \<Rightarrow> int" where
  "getTypeSize (ArrayTy n e s) =
     (if \<not> isDynamicType e then
        (if isArrayTy e \<or> isTupleTy e then n * getTypeSize e else n * 32)
      else 32)"
| "getTypeSize (TupleTy es ns st s rn) =
     (if \<not> isDynamicType (TupleTy es ns st s rn)
      then foldl (\<lambda>total elem. total + getTypeSize elem) 0 es
      else 32)"
| "getTypeSize t = 32"

section \<open>Go values and errors\<close>

text \<open>
  The values the codec receives and returns through \<open>reflect\<close>. Machine integers are words
  of their width; \<open>VBigInt\<close> is a non-nil \<open>*big.Int\<close>, \<open>VNil\<close> the nil one. A slice and an
  array carry their element type; a struct is the list of its fields.
\<close>

datatype Value =
    VBool bool
  | VInt8 "8 word" | VInt16 "16 word" | VInt32 "32 word" | VInt64 "64 word" | VInt "64 word"
  | VUint8 "8 word" | VUint16 "16 word" | VUint32 "32 word" | VUint64 "64 word" | VUint "64 word"
  | VBigInt int
  | VNil
  | VString "byte list"
  | VSlice gotype "Value list"
  | VArray gotype "Value list"
  | VStruct "(string \<times> Value) list"

datatype Kind =
    KBool | KInt | KInt8 | KInt16 | KInt32 | KInt64
  | KUint | KUint8 | KUint16 | KUint32 | KUint64
  | KPtr | KString | KSlice | KArray | KStruct

fun kindOfType :: "gotype \<Rightarrow> Kind" where
  "kindOfType GoBool = KBool"
| "kindOfType GoInt8 = KInt8"
| "kindOfType GoInt16 = KInt16"
| "kindOfType GoInt32 = KInt32"
| "kindOfType GoInt64 = KInt64"
| "kindOfType GoInt = KInt"
| "kindOfType GoUint8 = KUint8"
| "kindOfType GoUint16 = KUint16"
| "kindOfType GoUint32 = KUint32"
| "kindOfType GoUint64 = KUint64"
| "kindOfType GoUint = KUint"
| "kindOfType GoBigInt = KPtr"
| "kindOfType GoString = KString"
| "kindOfType (GoSlice g) = KSlice"
| "kindOfType (GoArray n g) = KArray"
| "kindOfType (GoStruct fs) = KStruct"

fun typeOf :: "Value \<Rightarrow> gotype" where
  "typeOf (VBool b) = GoBool"
| "typeOf (VInt8 w) = GoInt8"
| "typeOf (VInt16 w) = GoInt16"
| "typeOf (VInt32 w) = GoInt32"
| "typeOf (VInt64 w) = GoInt64"
| "typeOf (VInt w) = GoInt"
| "typeOf (VUint8 w) = GoUint8"
| "typeOf (VUint16 w) = GoUint16"
| "typeOf (VUint32 w) = GoUint32"
| "typeOf (VUint64 w) = GoUint64"
| "typeOf (VUint w) = GoUint"
| "typeOf (VBigInt n) = GoBigInt"
| "typeOf VNil = GoBigInt"
| "typeOf (VString bs) = GoString"
| "typeOf (VSlice g vs) = GoSlice g"
| "typeOf (VArray g vs) = GoArray (int (length vs)) g"
| "typeOf (VStruct fs) = GoStruct (map (\<lambda>(n, v). (n, typeOf v)) fs)"

definition kindOf :: "Value \<Rightarrow> Kind" where
  "kindOf v = kindOfType (typeOf v)"

text \<open>
  Every error the codec returns, and \<open>Panic\<close> for a run-time panic (a slice bound out of
  range, a nil pointer, a reflect call on the wrong kind).
\<close>

datatype error =
    Panic
  | errBadBool
  | errBadUint8 | errBadUint16 | errBadUint32 | errBadUint64
  | errBadInt8 | errBadInt16 | errBadInt32 | errBadInt64
  | errInvalidSign
  | errTypeErr
  | errUnknownType
  | errBytesNotSlice
  | errFieldNotFound string
  | errFieldMap
  | errArgumentCountMismatch int int
  | errLengthInsufficient
  | errSliceBoundary
  | errOffsetLargerThanInt64
  | errLengthLargerThanInt64
  | errArrayBoundary
  | errNegativeSize
  | errOffsetGreater
  | errInvalidStage
  | errBadFunctionType
  | errInvalidCall
  | errEmptyInput
  | errInvalidArgType
  | errInvalidArrayFormat
  | errParseSize
  | errInvalidType
  | errUnsupportedType
  | errAnonymousField
  | errInvalidFieldName nat

section \<open>Byte helpers (package common, common/math, math/big)\<close>

text \<open>\<open>big.Int.SetBytes\<close>: the bytes read as a big-endian unsigned integer.\<close>

definition SetBytes :: "byte list \<Rightarrow> int" where
  "SetBytes bs = foldl (\<lambda>a b. a * 256 + uint b) 0 bs"

text \<open>The big-endian bytes of the low \<open>8 * n\<close> bits of \<open>x\<close>.\<close>

fun be_bytes :: "nat \<Rightarrow> int \<Rightarrow> byte list" where
  "be_bytes 0 x = []"
| "be_bytes (Suc n) x = be_bytes n (x div 256) @ [word_of_int x]"

text \<open>
  Modelled from the spec: \<open>math.U256Bytes\<close> and \<open>math.PaddedBigBytes\<close> (common/math, absent
  here) give the 32-byte big-endian two's-complement word of a big integer.
\<close>

definition U256Bytes :: "int \<Rightarrow> byte list" where
  "U256Bytes n = be_bytes 32 (n mod 2 ^ 256)"

text \<open>
  Modelled from the spec: \<open>common.RightPadBytes\<close> and \<open>common.LeftPadBytes\<close> (package common,
  absent here) pad a byte string with zeros up to \<open>l\<close> bytes, on the right or on the left;
  padding adds bytes and never removes any, so a longer string is returned as it is.
\<close>

definition RightPadBytes :: "byte list \<Rightarrow> int \<Rightarrow> byte list" where
  "RightPadBytes bs l =
     (if l \<le> int (length bs) then bs
      else bs @ replicate (nat l - length bs) 0)"

definition LeftPadBytes :: "byte list \<Rightarrow> int \<Rightarrow> byte list" where
  "LeftPadBytes bs l =
     (if l \<le> int (length bs) then bs
      else replicate (nat l - length bs) 0 @ bs)"

text \<open>
  The slice expression \<open>s[lo:hi]\<close>: a panic when the bounds are out of range (the capacity
  of a slice is taken to be its length).
\<close>

definition goslice :: "'a list \<Rightarrow> int \<Rightarrow> int \<Rightarrow> error + 'a list" where
  "goslice s lo hi =
     (if 0 \<le> lo \<and> lo \<le> hi \<and> hi \<le> int (length s)
      then Inr (take (nat (hi - lo)) (drop (nat lo) s))
      else Inl Panic)"

text \<open>The slice expression \<open>s[lo:]\<close>.\<close>

definition gosliceFrom :: "'a list \<Rightarrow> int \<Rightarrow> error + 'a list" where
  "gosliceFrom s lo =
     (if 0 \<le> lo \<and> lo \<le> int (length s) then Inr (drop (nat lo) s) else Inl Panic)"

text \<open>Go's integer division, which truncates towards zero.\<close>

definition quot :: "int \<Rightarrow> int \<Rightarrow> int" where
  "quot a b = sgn a * sgn b * (\<bar>a\<bar> div \<bar>b\<bar>)"

section \<open>Reflection helpers\<close>

text \<open>
  Modelled from the spec: \<open>reflectIntType\<close> (reflect.go, absent here) gives the machine
  integer type for the widths 8, 16, 32 and 64 and \<open>*big.Int\<close> for every other width.
\<close>

definition reflectIntType :: "bool \<Rightarrow> int \<Rightarrow> gotype" where
  "reflectIntType isUnsigned sz =
     (if isUnsigned then
        (if sz = 8 then GoUint8 else if sz = 16 then GoUint16
         else if sz = 32 then GoUint32 else if sz = 64 then GoUint64 else GoBigInt)
      else
        (if sz = 8 then GoInt8 else if sz = 16 then GoInt16
         else if sz = 32 then GoInt32 else if sz = 64 then GoInt64 else GoBigInt))"

text \<open>
  \<open>GetType\<close>. \<open>reflect.ArrayOf\<close> panics on a negative length; \<open>NewType\<close> reads every size
  with \<open>strconv.Atoi\<close> from a string of digits, so no \<open>Type\<close> it builds has one.
\<close>

fun GetType :: "Type \<Rightarrow> gotype" where
  "GetType (Elementary IntTy sz s) = reflectIntType False sz"
| "GetType (Elementary UintTy sz s) = reflectIntType True sz"
| "GetType (Elementary BoolTy sz s) = GoBool"
| "GetType (Elementary StringTy sz s) = GoString"
| "GetType (SliceTy e s) = GoSlice (GetType e)"
| "GetType (ArrayTy n e s) = GoArray n (GetType e)"
| "GetType (TupleTy es ns st s rn) = st"
| "GetType (Elementary AddressTy sz s) = GoArray 20 GoUint8"
| "GetType (Elementary FixedBytesTy sz s) = GoArray sz GoUint8"
| "GetType (Elementary BytesTy sz s) = GoSlice GoUint8"
| "GetType (Elementary HashTy sz s) = GoArray 32 GoUint8"
| "GetType (Elementary FixedPointTy sz s) = GoArray 32 GoUint8"
| "GetType (Elementary FunctionTy sz s) = GoArray 24 GoUint8"

text \<open>\<open>Value.Len\<close>: the length of an array, a slice or a string; a panic on any other kind.\<close>

fun Len :: "Value \<Rightarrow> error + int" where
  "Len (VSlice g vs) = Inr (int (length vs))"
| "Len (VArray g vs) = Inr (int (length vs))"
| "Len (VString bs) = Inr (int (length bs))"
| "Len v = Inl Panic"

text \<open>The elements \<open>v.Index(0)\<close>, ..., \<open>v.Index(v.Len() - 1)\<close> of an array or a slice.\<close>

fun elemsOf :: "Value \<Rightarrow> Value list" where
  "elemsOf (VSlice g vs) = vs"
| "elemsOf (VArray g vs) = vs"
| "elemsOf v = []"

text \<open>\<open>v.Type().Elem()\<close> of an array or a slice.\<close>

fun elemTypeOf :: "Value \<Rightarrow> error + gotype" where
  "elemTypeOf (VSlice g vs) = Inr g"
| "elemTypeOf (VArray g vs) = Inr g"
| "elemTypeOf v = Inl Panic"

fun byteOf :: "Value \<Rightarrow> byte option" where
  "byteOf (VUint8 b) = Some b"
| "byteOf v = None"

fun bytesOf :: "Value list \<Rightarrow> error + byte list" where
  "bytesOf [] = Inr []"
| "bytesOf (v # vs) =
     (case byteOf v of None \<Rightarrow> Inl Panic
      | Some b \<Rightarrow> (case bytesOf vs of Inl err \<Rightarrow> Inl err | Inr bs \<Rightarrow> Inr (b # bs)))"

text \<open>\<open>Value.Bytes\<close>: the content of a byte slice; a panic on any other value.\<close>

fun Bytes :: "Value \<Rightarrow> error + byte list" where
  "Bytes (VSlice g vs) = (if g = GoUint8 then bytesOf vs else Inl Panic)"
| "Bytes v = Inl Panic"

text \<open>
  Modelled from the spec: \<open>mustArrayToByteSlice\<close> (reflect.go, absent here) copies an array
  into a fresh slice of the same element type.
\<close>

fun mustArrayToByteSlice :: "Value \<Rightarrow> error + Value" where
  "mustArrayToByteSlice (VArray g vs) = Inr (VSlice g vs)"
| "mustArrayToByteSlice v = Inl Panic"

text \<open>
  Modelled from the spec: \<open>indirect\<close> (reflect.go, absent here) dereferences a pointer
  argument and keeps a \<open>*big.Int\<close> as it is. The only pointers of the value model are
  \<open>*big.Int\<close>; inspecting the nil one panics.
\<close>

fun indirect :: "Value \<Rightarrow> error + Value" where
  "indirect VNil = Inl Panic"
| "indirect v = Inr v"

text \<open>\<open>Value.FieldByName\<close>: \<open>None\<close> is the invalid (zero) value of a missing field.\<close>

fun FieldByName :: "Value \<Rightarrow> string \<Rightarrow> error + Value option" where
  "FieldByName (VStruct fs) name = Inr (map_of fs name)"
| "FieldByName v name = Inl Panic"

section \<open>Type checks (the error file of package abi)\<close>

text \<open>
  \<open>sliceTypeCheck\<close>. The result is the returned error, \<open>None\<close> for \<open>nil\<close>. It is called on
  slice and array types only; on any other type \<open>t.Elem\<close> is nil.
\<close>

fun sliceTypeCheck :: "Type \<Rightarrow> Value \<Rightarrow> error option" where
  "sliceTypeCheck (SliceTy e s) val =
     (if kindOf val \<noteq> KSlice \<and> kindOf val \<noteq> KArray then Some errTypeErr
      else if (isSliceTy e \<or> isArrayTy e) \<and> elemsOf val \<noteq> []
      then sliceTypeCheck e (hd (elemsOf val))
      else if map_sum id kindOfType (elemTypeOf val) \<noteq> Inr (kindOfType (GetType e))
      then Some errTypeErr
      else None)"
| "sliceTypeCheck (ArrayTy n e s) val =
     (if kindOf val \<noteq> KSlice \<and> kindOf val \<noteq> KArray then Some errTypeErr
      else if int (length (elemsOf val)) \<noteq> n then Some errTypeErr
      else if (isSliceTy e \<or> isArrayTy e) \<and> elemsOf val \<noteq> []
      then sliceTypeCheck e (hd (elemsOf val))
      else if map_sum id kindOfType (elemTypeOf val) \<noteq> Inr (kindOfType (GetType e))
      then Some errTypeErr
      else None)"
| "sliceTypeCheck t val = Some Panic"

text \<open>\<open>typeCheck\<close>.\<close>

fun typeCheck :: "Type \<Rightarrow> Value \<Rightarrow> error option" where
  "typeCheck (SliceTy e s) v = sliceTypeCheck (SliceTy e s) v"
| "typeCheck (ArrayTy n e s) v = sliceTypeCheck (ArrayTy n e s) v"
| "typeCheck (Elementary k sz s) v =
     (if kindOfType (GetType (Elementary k sz s)) \<noteq> kindOf v then Some errTypeErr
      else if k = FixedBytesTy \<and> Inr sz \<noteq> Len v then Some errTypeErr
      else None)"
| "typeCheck (TupleTy es ns st s rn) v =
     (if kindOfType st \<noteq> kindOf v then Some errTypeErr else None)"

section \<open>The encoder (pack.go, type.go)\<close>

text \<open>\<open>packNum\<close>: every integer is packed as a 256-bit big-endian number.\<close>

fun packNum :: "Value \<Rightarrow> error + byte list" where
  "packNum (VUint w) = Inr (U256Bytes (uint w))"
| "packNum (VUint8 w) = Inr (U256Bytes (uint w))"
| "packNum (VUint16 w) = Inr (U256Bytes (uint w))"
| "packNum (VUint32 w) = Inr (U256Bytes (uint w))"
| "packNum (VUint64 w) = Inr (U256Bytes (uint w))"
| "packNum (VInt w) = Inr (U256Bytes (sint w))"
| "packNum (VInt8 w) = Inr (U256Bytes (sint w))"
| "packNum (VInt16 w) = Inr (U256Bytes (sint w))"
| "packNum (VInt32 w) = Inr (U256Bytes (sint w))"
| "packNum (VInt64 w) = Inr (U256Bytes (sint w))"
| "packNum (VBigInt n) = Inr (U256Bytes n)"
| "packNum v = Inl Panic"

text \<open>\<open>packNum(reflect.ValueOf(n))\<close> for a Go \<open>int\<close> \<open>n\<close>.\<close>

definition packInt :: "int \<Rightarrow> error + byte list" where
  "packInt n = packNum (VInt (word_of_int n))"

text \<open>\<open>packBytesSlice\<close>: the length, then the content padded to a multiple of 32 bytes.\<close>

definition packBytesSlice :: "byte list \<Rightarrow> int \<Rightarrow> error + byte list" where
  "packBytesSlice bytes l =
     (case packInt l of Inl err \<Rightarrow> Inl err
      | Inr len \<Rightarrow> Inr (len @ RightPadBytes bytes (quot (l + 31) 32 * 32)))"

text \<open>
  \<open>packElement\<close>. \<open>typeCheck\<close> has run before it, so a string type meets a string value and a
  bool type a bool value; the reflect accessors panic on the other kinds.
\<close>

fun packElement :: "Type \<Rightarrow> Value \<Rightarrow> error + byte list" where
  "packElement (Elementary UintTy sz s) v =
     (if kindOf v = KPtr then
        (case v of VBigInt val \<Rightarrow> (if val < 0 then Inl errInvalidSign else packNum v)
         | _ \<Rightarrow> Inl Panic)
      else packNum v)"
| "packElement (Elementary IntTy sz s) v = packNum v"
| "packElement (Elementary StringTy sz s) v =
     (case v of VString bs \<Rightarrow> packBytesSlice bs (int (length bs)) | _ \<Rightarrow> Inl Panic)"
| "packElement (Elementary AddressTy sz s) v =
     (case (if kindOf v = KArray then mustArrayToByteSlice v else Inr v) of
        Inl err \<Rightarrow> Inl err
      | Inr v' \<Rightarrow> (case Bytes v' of Inl err \<Rightarrow> Inl err | Inr bs \<Rightarrow> Inr (LeftPadBytes bs 32)))"
| "packElement (Elementary BoolTy sz s) v =
     (case v of VBool b \<Rightarrow> (if b then Inr (be_bytes 32 1) else Inr (be_bytes 32 0))
      | _ \<Rightarrow> Inl Panic)"
| "packElement (Elementary BytesTy sz s) v =
     (case (if kindOf v = KArray then mustArrayToByteSlice v else Inr v) of
        Inl err \<Rightarrow> Inl err
      | Inr v' \<Rightarrow>
          (if typeOf v' \<noteq> GoSlice GoUint8 then Inl errBytesNotSlice
           else (case Bytes v' of Inl err \<Rightarrow> Inl err
                 | Inr bs \<Rightarrow> packBytesSlice bs (int (length bs)))))"
| "packElement (Elementary FixedBytesTy sz s) v =
     (case (if kindOf v = KArray then mustArrayToByteSlice v else Inr v) of
        Inl err \<Rightarrow> Inl err
      | Inr v' \<Rightarrow> (case Bytes v' of Inl err \<Rightarrow> Inl err | Inr bs \<Rightarrow> Inr (RightPadBytes bs 32)))"
| "packElement (Elementary FunctionTy sz s) v =
     (case (if kindOf v = KArray then mustArrayToByteSlice v else Inr v) of
        Inl err \<Rightarrow> Inl err
      | Inr v' \<Rightarrow> (case Bytes v' of Inl err \<Rightarrow> Inl err | Inr bs \<Rightarrow> Inr (RightPadBytes bs 32)))"
| "packElement t v = Inl errUnknownType"

text \<open>
  The loop of \<open>Type.pack\<close> over the elements of a slice or an array: \<open>pk\<close> packs one element,
  \<open>ret\<close>, \<open>tail\<close> and \<open>offset\<close> are the variables of the source.
\<close>

fun packArrayLoop ::
  "(Value \<Rightarrow> error + byte list) \<Rightarrow> bool \<Rightarrow> Value list \<Rightarrow> int \<Rightarrow> byte list \<Rightarrow> byte list
    \<Rightarrow> error + byte list" where
  "packArrayLoop pk offsetReq [] offset ret tail = Inr (ret @ tail)"
| "packArrayLoop pk offsetReq (x # xs) offset ret tail =
     (case pk x of Inl err \<Rightarrow> Inl err
      | Inr val \<Rightarrow>
          (if \<not> offsetReq then packArrayLoop pk offsetReq xs offset (ret @ val) tail
           else (case packInt offset of Inl err \<Rightarrow> Inl err
                 | Inr w \<Rightarrow> packArrayLoop pk offsetReq xs (offset + int (length val))
                             (ret @ w) (tail @ val))))"

text \<open>
  The loop of \<open>Type.pack\<close> over the fields of a tuple. Each entry of the list is one element
  of \<open>TupleElems\<close>: its packer and whether it is dynamic; \<open>i\<close> is the loop index.
\<close>

fun packTupleLoop ::
  "(string \<Rightarrow> string) \<Rightarrow> Value \<Rightarrow> string list \<Rightarrow> nat
    \<Rightarrow> ((Value \<Rightarrow> error + byte list) \<times> bool) list \<Rightarrow> int \<Rightarrow> byte list \<Rightarrow> byte list
    \<Rightarrow> error + byte list" where
  "packTupleLoop fieldmap v names i [] offset ret tail = Inr (ret @ tail)"
| "packTupleLoop fieldmap v names i ((pk, dyn) # rest) offset ret tail =
     (if length names \<le> i then Inl Panic
      else (case FieldByName v (fieldmap (names ! i)) of
              Inl err \<Rightarrow> Inl err
            | Inr None \<Rightarrow> Inl (errFieldNotFound (names ! i))
            | Inr (Some field) \<Rightarrow>
                (case pk field of Inl err \<Rightarrow> Inl err
                 | Inr val \<Rightarrow>
                     (if dyn then
                        (case packInt offset of Inl err \<Rightarrow> Inl err
                         | Inr w \<Rightarrow> packTupleLoop fieldmap v names (Suc i) rest
                                     (offset + int (length val)) (ret @ w) (tail @ val))
                      else packTupleLoop fieldmap v names (Suc i) rest offset (ret @ val) tail))))"

text \<open>
  \<open>Type.pack\<close>. \<open>mapArgNamesToStructFields\<close> (reflect.go) is not part of the sources at
  hand: it is the parameter \<open>M\<close>, which returns an error or the map from the raw field names
  to the names of the struct fields (a missing key reads as the empty string).
\<close>

type_synonym fieldmapper = "string list \<Rightarrow> Value \<Rightarrow> error + (string \<Rightarrow> string)"

fun pack :: "fieldmapper \<Rightarrow> Type \<Rightarrow> Value \<Rightarrow> error + byte list" where
  "pack M (SliceTy e s) v0 =
     (case indirect v0 of Inl err \<Rightarrow> Inl err
      | Inr v \<Rightarrow>
     (case typeCheck (SliceTy e s) v of Some err \<Rightarrow> Inl err
      | None \<Rightarrow>
     (case packInt (int (length (elemsOf v))) of Inl err \<Rightarrow> Inl err
      | Inr ret \<Rightarrow>
          packArrayLoop (\<lambda>x. pack M e x) (isDynamicType e) (elemsOf v)
            (if isDynamicType e then getTypeSize e * int (length (elemsOf v)) else 0)
            ret [])))"
| "pack M (ArrayTy n e s) v0 =
     (case indirect v0 of Inl err \<Rightarrow> Inl err
      | Inr v \<Rightarrow>
     (case typeCheck (ArrayTy n e s) v of Some err \<Rightarrow> Inl err
      | None \<Rightarrow>
          packArrayLoop (\<lambda>x. pack M e x) (isDynamicType e) (elemsOf v)
            (if isDynamicType e then getTypeSize e * int (length (elemsOf v)) else 0)
            [] []))"
| "pack M (TupleTy es ns st s rn) v0 =
     (case indirect v0 of Inl err \<Rightarrow> Inl err
      | Inr v \<Rightarrow>
     (case typeCheck (TupleTy es ns st s rn) v of Some err \<Rightarrow> Inl err
      | None \<Rightarrow>
     (case M ns v of Inl err \<Rightarrow> Inl err
      | Inr fieldmap \<Rightarrow>
          packTupleLoop fieldmap v ns 0
            (map (\<lambda>elem. (\<lambda>x. pack M elem x, isDynamicType elem)) es)
            (foldl (\<lambda>offset elem. offset + getTypeSize elem) 0 es) [] [])))"
| "pack M (Elementary k sz s) v0 =
     (case indirect v0 of Inl err \<Rightarrow> Inl err
      | Inr v \<Rightarrow>
     (case typeCheck (Elementary k sz s) v of Some err \<Rightarrow> Inl err
      | None \<Rightarrow> packElement (Elementary k sz s) v))"

section \<open>The decoder (unpack.go)\<close>

fun Size :: "Type \<Rightarrow> int" where
  "Size (Elementary k sz s) = sz"
| "Size (ArrayTy n e s) = n"
| "Size t = 0"

fun elementaryT :: "Type \<Rightarrow> elementary option" where
  "elementaryT (Elementary k sz s) = Some k"
| "elementaryT t = None"

text \<open>The zero value of a Go type, as \<open>reflect.New\<close> and \<open>reflect.MakeSlice\<close> allocate it.\<close>

fun zeroValue :: "gotype \<Rightarrow> Value" where
  "zeroValue GoBool = VBool False"
| "zeroValue GoInt8 = VInt8 0"
| "zeroValue GoInt16 = VInt16 0"
| "zeroValue GoInt32 = VInt32 0"
| "zeroValue GoInt64 = VInt64 0"
| "zeroValue GoInt = VInt 0"
| "zeroValue GoUint8 = VUint8 0"
| "zeroValue GoUint16 = VUint16 0"
| "zeroValue GoUint32 = VUint32 0"
| "zeroValue GoUint64 = VUint64 0"
| "zeroValue GoUint = VUint 0"
| "zeroValue GoBigInt = VNil"
| "zeroValue GoString = VString []"
| "zeroValue (GoSlice g) = VSlice g []"
| "zeroValue (GoArray n g) = VArray g (replicate (nat n) (zeroValue g))"
| "zeroValue (GoStruct fs) = VStruct (map (\<lambda>f. (fst f, zeroValue (snd f))) fs)"

text \<open>
  \<open>ReadInteger\<close>. \<open>ret.Uint64()\<close> and \<open>ret.Int64()\<close> are used only under \<open>IsUint64\<close> and
  \<open>IsInt64\<close>, where they are the value itself.
\<close>

definition ReadInteger :: "Type \<Rightarrow> byte list \<Rightarrow> error + Value" where
  "ReadInteger typ b =
     (let ret = SetBytes b in
      if elementaryT typ = Some UintTy then
        (let isu64 = (ret < 2 ^ 64) in
         if Size typ = 8 then
           (if \<not> isu64 \<or> ret > 255 then Inl errBadUint8 else Inr (VUint8 (word_of_int ret)))
         else if Size typ = 16 then
           (if \<not> isu64 \<or> ret > 65535 then Inl errBadUint16 else Inr (VUint16 (word_of_int ret)))
         else if Size typ = 32 then
           (if \<not> isu64 \<or> ret > 4294967295 then Inl errBadUint32
            else Inr (VUint32 (word_of_int ret)))
         else if Size typ = 64 then
           (if \<not> isu64 then Inl errBadUint64 else Inr (VUint64 (word_of_int ret)))
         else Inr (VBigInt ret))
      else
        (let ret = (if (ret div 2 ^ 255) mod 2 = 1 then - ((2 ^ 256 - 1 + (- ret)) + 1) else ret);
             isi64 = (- (2 ^ 63) \<le> ret \<and> ret < 2 ^ 63) in
         if Size typ = 8 then
           (if \<not> isi64 \<or> ret < - 128 \<or> ret > 127 then Inl errBadInt8
            else Inr (VInt8 (word_of_int ret)))
         else if Size typ = 16 then
           (if \<not> isi64 \<or> ret < - 32768 \<or> ret > 32767 then Inl errBadInt16
            else Inr (VInt16 (word_of_int ret)))
         else if Size typ = 32 then
           (if \<not> isi64 \<or> ret < - 2147483648 \<or> ret > 2147483647 then Inl errBadInt32
            else Inr (VInt32 (word_of_int ret)))
         else if Size typ = 64 then
           (if \<not> isi64 then Inl errBadInt64 else Inr (VInt64 (word_of_int ret)))
         else Inr (VBigInt ret)))"

text \<open>
  \<open>readBool\<close>: the loop over \<open>word[:31]\<close> returns \<open>errBadBool\<close> at the first non-zero byte;
  then the switch on \<open>word[31]\<close>.
\<close>

definition readBool :: "byte list \<Rightarrow> error + bool" where
  "readBool word =
     (case goslice word 0 31 of Inl err \<Rightarrow> Inl err
      | Inr front \<Rightarrow>
          (if list_ex (\<lambda>b. b \<noteq> 0) front then Inl errBadBool
           else if length word \<le> 31 then Inl Panic
           else if word ! 31 = 0 then Inr False
           else if word ! 31 = 1 then Inr True
           else Inl errBadBool))"

text \<open>\<open>readFunctionType\<close>.\<close>

definition readFunctionType :: "Type \<Rightarrow> byte list \<Rightarrow> error + Value" where
  "readFunctionType t word =
     (if elementaryT t \<noteq> Some FunctionTy then Inl errInvalidCall
      else (case goslice word 24 32 of Inl err \<Rightarrow> Inl err
            | Inr g \<Rightarrow>
                (if SetBytes g \<noteq> 0 then Inl errBadFunctionType
                 else (case goslice word 0 24 of Inl err \<Rightarrow> Inl err
                       | Inr w \<Rightarrow> Inr (VArray GoUint8 (map VUint8 w))))))"

text \<open>\<open>ReadFixedBytes\<close>.\<close>

definition ReadFixedBytes :: "Type \<Rightarrow> byte list \<Rightarrow> error + Value" where
  "ReadFixedBytes t word =
     (if elementaryT t \<noteq> Some FixedBytesTy then Inl errInvalidCall
      else (case goslice word 0 (Size t) of Inl err \<Rightarrow> Inl err
            | Inr w \<Rightarrow> Inr (VArray GoUint8 (map VUint8 w))))"

text \<open>
  Modelled from the spec: \<open>common.BytesToAddress\<close> and \<open>common.BytesToHash\<close> (package common,
  absent here) keep the last 20 (32) bytes of the word, the inverse of the left padding of
  the encoder.
\<close>

definition BytesToAddress :: "byte list \<Rightarrow> Value" where
  "BytesToAddress b = VArray GoUint8 (map VUint8 (LeftPadBytes (drop (length b - 20) b) 20))"

definition BytesToHash :: "byte list \<Rightarrow> Value" where
  "BytesToHash b = VArray GoUint8 (map VUint8 (LeftPadBytes (drop (length b - 32) b) 32))"

text \<open>\<open>lengthPrefixPointsTo\<close>: the result is \<open>(start, length)\<close>.\<close>

definition lengthPrefixPointsTo :: "int \<Rightarrow> byte list \<Rightarrow> error + (int \<times> int)" where
  "lengthPrefixPointsTo index output =
     (case goslice output index (index + 32) of Inl err \<Rightarrow> Inl err
      | Inr w \<Rightarrow>
          (let bigOffsetEnd = SetBytes w + 32;
               outputLength = int (length output) in
           if bigOffsetEnd > outputLength then Inl errSliceBoundary
           else if bigOffsetEnd \<ge> 2 ^ 63 then Inl errOffsetLargerThanInt64
           else (case goslice output (bigOffsetEnd - 32) bigOffsetEnd of Inl err \<Rightarrow> Inl err
                 | Inr lw \<Rightarrow>
                     (let lengthBig = SetBytes lw;
                          totalSize = bigOffsetEnd + lengthBig in
                      if totalSize \<ge> 2 ^ 63 then Inl errLengthLargerThanInt64
                      else if totalSize > outputLength then Inl errLengthInsufficient
                      else Inr (bigOffsetEnd, lengthBig)))))"

text \<open>\<open>tuplePointsTo\<close>.\<close>

definition tuplePointsTo :: "int \<Rightarrow> byte list \<Rightarrow> error + int" where
  "tuplePointsTo index output =
     (case goslice output index (index + 32) of Inl err \<Rightarrow> Inl err
      | Inr w \<Rightarrow>
          (let offset = SetBytes w; outputLen = int (length output) in
           if offset > outputLen then Inl errSliceBoundary
           else if offset \<ge> 2 ^ 63 then Inl errOffsetLargerThanInt64
           else Inr offset))"

text \<open>
  The part of \<open>toGoType\<close> before the switch: the bounds check, then either the length prefix
  or the 32-byte word. The result is \<open>(returnOutput, begin, length)\<close>.
\<close>

definition toGoTypeHead :: "int \<Rightarrow> bool \<Rightarrow> byte list \<Rightarrow> error + (byte list \<times> int \<times> int)" where
  "toGoTypeHead index lengthPrefix output =
     (if index + 32 > int (length output) then Inl errLengthInsufficient
      else if lengthPrefix then
        (case lengthPrefixPointsTo index output of Inl err \<Rightarrow> Inl err
         | Inr (begin, len) \<Rightarrow> Inr ([], begin, len))
      else
        (case goslice output index (index + 32) of Inl err \<Rightarrow> Inl err
         | Inr returnOutput \<Rightarrow> Inr (returnOutput, 0, 0)))"

text \<open>
  The loop of \<open>forEachUnpack\<close>: \<open>dec i\<close> is \<open>toGoType(i, *t.Elem, output)\<close>, \<open>et\<close> the element
  type of the slice or array under construction and \<open>lim\<close> the length of the array
  (\<open>None\<close> for a slice, which is made with \<open>size\<close> elements); \<open>Index(j).Set\<close> panics beyond
  that length or on a value of another type.
\<close>

function forEachLoop ::
  "(int \<Rightarrow> error + Value) \<Rightarrow> gotype \<Rightarrow> int option \<Rightarrow> int \<Rightarrow> int \<Rightarrow> int \<Rightarrow> int \<Rightarrow> Value list
    \<Rightarrow> error + Value list" where
  "forEachLoop dec et lim elemSize i j sz acc =
     (if j < sz then
        (case dec i of Inl err \<Rightarrow> Inl err
         | Inr item \<Rightarrow>
             (if (case lim of Some n \<Rightarrow> n \<le> j | None \<Rightarrow> False) \<or> typeOf item \<noteq> et
              then Inl Panic
              else forEachLoop dec et lim elemSize (i + elemSize) (j + 1) sz (acc @ [item])))
      else Inr acc)"
  by pat_completeness auto
termination
  by (relation "measure (\<lambda>(dec, et, lim, elemSize, i, j, sz, acc). nat (sz - j))") auto

declare forEachLoop.simps [simp del]

text \<open>\<open>retval.Field(index).Set(v)\<close> on the struct of type \<open>st\<close> under construction.\<close>

fun setField :: "gotype \<Rightarrow> Value \<Rightarrow> nat \<Rightarrow> Value \<Rightarrow> error + Value" where
  "setField (GoStruct fts) (VStruct fs) index v =
     (if index < length fts \<and> index < length fs \<and> snd (fts ! index) = typeOf v
      then Inr (VStruct (fs[index := (fst (fts ! index), v)]))
      else Inl Panic)"
| "setField st retval index v = Inl Panic"

text \<open>
  The loop of \<open>forTupleUnpack\<close> (and of \<open>UnpackValues\<close>' index arithmetic): each entry is one
  element of \<open>TupleElems\<close>, its decoder \<open>dec i = toGoType(i, *elem, output)\<close> and the number
  of virtual arguments it adds.
\<close>

fun forTupleLoop ::
  "gotype \<Rightarrow> ((int \<Rightarrow> error + Value) \<times> int) list \<Rightarrow> nat \<Rightarrow> int \<Rightarrow> Value \<Rightarrow> error + Value" where
  "forTupleLoop st [] index virtualArgs retval = Inr retval"
| "forTupleLoop st ((dec, extra) # rest) index virtualArgs retval =
     (case dec ((int index + virtualArgs) * 32) of Inl err \<Rightarrow> Inl err
      | Inr marshalledValue \<Rightarrow>
          (case setField st retval index marshalledValue of Inl err \<Rightarrow> Inl err
           | Inr retval' \<Rightarrow> forTupleLoop st rest (Suc index) (virtualArgs + extra) retval'))"

text \<open>
  The virtual arguments a static array or a static tuple adds:
  \<open>getTypeSize(elem)/32 - 1\<close>; nothing for any other type.
\<close>

definition virtualArgsOf :: "Type \<Rightarrow> int" where
  "virtualArgsOf elem =
     (if isArrayTy elem \<and> \<not> isDynamicType elem then quot (getTypeSize elem) 32 - 1
      else if isTupleTy elem \<and> \<not> isDynamicType elem then quot (getTypeSize elem) 32 - 1
      else 0)"

text \<open>\<open>toGoType\<close>, \<open>forEachUnpack\<close> and \<open>forTupleUnpack\<close>.\<close>

function (sequential)
  toGoType :: "int \<Rightarrow> Type \<Rightarrow> byte list \<Rightarrow> error + Value" and
  forEachUnpack :: "Type \<Rightarrow> byte list \<Rightarrow> int \<Rightarrow> int \<Rightarrow> error + Value" and
  forTupleUnpack :: "Type \<Rightarrow> byte list \<Rightarrow> error + Value"
where
  "toGoType index (TupleTy es ns st s rn) output =
     (case toGoTypeHead index False output of Inl err \<Rightarrow> Inl err
      | Inr (returnOutput, begin, len) \<Rightarrow>
          (if isDynamicType (TupleTy es ns st s rn) then
             (case tuplePointsTo index output of Inl err \<Rightarrow> Inl err
              | Inr begin \<Rightarrow>
                  (case gosliceFrom output begin of Inl err \<Rightarrow> Inl err
                   | Inr out \<Rightarrow> forTupleUnpack (TupleTy es ns st s rn) out))
           else (case gosliceFrom output index of Inl err \<Rightarrow> Inl err
                 | Inr out \<Rightarrow> forTupleUnpack (TupleTy es ns st s rn) out)))"
| "toGoType index (SliceTy e s) output =
     (case toGoTypeHead index True output of Inl err \<Rightarrow> Inl err
      | Inr (returnOutput, begin, len) \<Rightarrow>
          (case gosliceFrom output begin of Inl err \<Rightarrow> Inl err
           | Inr out \<Rightarrow> forEachUnpack (SliceTy e s) out 0 len))"
| "toGoType index (ArrayTy n e s) output =
     (case toGoTypeHead index False output of Inl err \<Rightarrow> Inl err
      | Inr (returnOutput, begin, len) \<Rightarrow>
          (if isDynamicType e then
             (case goslice returnOutput (int (length returnOutput) - 8)
                     (int (length returnOutput)) of
                Inl err \<Rightarrow> Inl err
              | Inr w \<Rightarrow>
                  (let offset = SetBytes w in
                   if offset > int (length output) then Inl errOffsetGreater
                   else (case gosliceFrom output offset of Inl err \<Rightarrow> Inl err
                         | Inr out \<Rightarrow> forEachUnpack (ArrayTy n e s) out 0 n)))
           else (case gosliceFrom output index of Inl err \<Rightarrow> Inl err
                 | Inr out \<Rightarrow> forEachUnpack (ArrayTy n e s) out 0 n)))"
| "toGoType index (Elementary k sz s) output =
     (case toGoTypeHead index (k = StringTy \<or> k = BytesTy) output of Inl err \<Rightarrow> Inl err
      | Inr (returnOutput, begin, len) \<Rightarrow>
          (if k = StringTy then
             (case goslice output begin (begin + len) of Inl err \<Rightarrow> Inl err
              | Inr bs \<Rightarrow> Inr (VString bs))
           else if k = IntTy \<or> k = UintTy then ReadInteger (Elementary k sz s) returnOutput
           else if k = BoolTy then
             (case readBool returnOutput of Inl err \<Rightarrow> Inl err | Inr b \<Rightarrow> Inr (VBool b))
           else if k = AddressTy then Inr (BytesToAddress returnOutput)
           else if k = HashTy then Inr (BytesToHash returnOutput)
           else if k = BytesTy then
             (case goslice output begin (begin + len) of Inl err \<Rightarrow> Inl err
              | Inr bs \<Rightarrow> Inr (VSlice GoUint8 (map VUint8 bs)))
           else if k = FixedBytesTy then ReadFixedBytes (Elementary k sz s) returnOutput
           else if k = FunctionTy then readFunctionType (Elementary k sz s) returnOutput
           else Inl errUnknownType))"
| "forEachUnpack (SliceTy e s) output start sz =
     (if sz < 0 then Inl errNegativeSize
      else if start + 32 * sz > int (length output) then Inl errArrayBoundary
      else (case forEachLoop (\<lambda>i. toGoType i e output) (GetType e) None (getTypeSize e)
                   start 0 sz [] of
              Inl err \<Rightarrow> Inl err
            | Inr vs \<Rightarrow> Inr (VSlice (GetType e) vs)))"
| "forEachUnpack (ArrayTy n e s) output start sz =
     (if sz < 0 then Inl errNegativeSize
      else if start + 32 * sz > int (length output) then Inl errArrayBoundary
      else (case forEachLoop (\<lambda>i. toGoType i e output) (GetType e) (Some n) (getTypeSize e)
                   start 0 sz [] of
              Inl err \<Rightarrow> Inl err
            | Inr vs \<Rightarrow>
                Inr (VArray (GetType e) (vs @ replicate (nat n - length vs) (zeroValue (GetType e))))))"
| "forEachUnpack t output start sz =
     (if sz < 0 then Inl errNegativeSize
      else if start + 32 * sz > int (length output) then Inl errArrayBoundary
      else Inl errInvalidStage)"
| "forTupleUnpack (TupleTy es ns st s rn) output =
     forTupleLoop st (map (\<lambda>elem. (\<lambda>i. toGoType i elem output, virtualArgsOf elem)) es)
       0 0 (zeroValue st)"
| "forTupleUnpack t output = Inr (zeroValue (GetType t))"
  by pat_completeness auto
termination
  by (relation "measure (\<lambda>x. case x of
          Inl (index, t, output) \<Rightarrow> 2 * size t + 1
        | Inr (Inl (t, output, start, sz)) \<Rightarrow> 2 * size t
        | Inr (Inr (t, output)) \<Rightarrow> 2 * size t)")
     (auto simp: less_Suc_eq_le size_list_estimation')

section \<open>Argument lists (argument.go)\<close>

record Argument =
  Name :: string
  Type :: Type
  Indexed :: bool

type_synonym Arguments = "Argument list"

text \<open>\<open>NonIndexed\<close>.\<close>

definition NonIndexed :: "Arguments \<Rightarrow> Arguments" where
  "NonIndexed arguments = filter (\<lambda>arg. \<not> Indexed arg) arguments"

text \<open>The loop of \<open>UnpackValues\<close>, with its variables \<open>retval\<close>, \<open>virtualArgs\<close> and \<open>index\<close>.\<close>

fun UnpackValuesLoop ::
  "Arguments \<Rightarrow> byte list \<Rightarrow> Value list \<Rightarrow> int \<Rightarrow> int \<Rightarrow> error + Value list" where
  "UnpackValuesLoop [] data retval virtualArgs index = Inr retval"
| "UnpackValuesLoop (arg # rest) data retval virtualArgs index =
     (if Indexed arg then UnpackValuesLoop rest data retval virtualArgs index
      else (case toGoType ((index + virtualArgs) * 32) (Type arg) data of
              Inl err \<Rightarrow> Inl err
            | Inr marshalledValue \<Rightarrow>
                UnpackValuesLoop rest data (retval @ [marshalledValue])
                  (virtualArgs + virtualArgsOf (Type arg)) (index + 1)))"

definition UnpackValues :: "Arguments \<Rightarrow> byte list \<Rightarrow> error + Value list" where
  "UnpackValues arguments data = UnpackValuesLoop arguments data [] 0 0"

text \<open>\<open>Unpack\<close>.\<close>

definition Unpack :: "Arguments \<Rightarrow> byte list \<Rightarrow> error + Value list" where
  "Unpack arguments data =
     (if length data = 0 then
        (if length (NonIndexed arguments) \<noteq> 0 then Inl errEmptyInput else Inr [])
      else UnpackValues arguments data)"

text \<open>
  The loop of \<open>Pack\<close> over \<open>args\<close>; \<open>abiArgs[i]\<close> is in range, the two lists having the same
  length after the check of \<open>Pack\<close>.
\<close>

fun PackLoop ::
  "fieldmapper \<Rightarrow> Arguments \<Rightarrow> Value list \<Rightarrow> int \<Rightarrow> byte list \<Rightarrow> byte list
    \<Rightarrow> error + byte list" where
  "PackLoop M (input # abiArgs) (a # args) inputOffset ret variableInput =
     (case pack M (Type input) a of Inl err \<Rightarrow> Inl err
      | Inr packed \<Rightarrow>
          (if isDynamicType (Type input) then
             (case packInt inputOffset of Inl err \<Rightarrow> Inl err
              | Inr w \<Rightarrow> PackLoop M abiArgs args (inputOffset + int (length packed))
                          (ret @ w) (variableInput @ packed))
           else PackLoop M abiArgs args inputOffset (ret @ packed) variableInput))"
| "PackLoop M abiArgs [] inputOffset ret variableInput = Inr (ret @ variableInput)"
| "PackLoop M [] (a # args) inputOffset ret variableInput = Inl Panic"

text \<open>\<open>Pack\<close> (and \<open>PackValues\<close>, which calls it).\<close>

definition Pack :: "fieldmapper \<Rightarrow> Arguments \<Rightarrow> Value list \<Rightarrow> error + byte list" where
  "Pack M arguments args =
     (if length args \<noteq> length arguments
      then Inl (errArgumentCountMismatch (int (length args)) (int (length arguments)))
      else PackLoop M arguments args
             (foldl (\<lambda>inputOffset abiArg. inputOffset + getTypeSize (Type abiArg)) 0 arguments)
             [] [])"

section \<open>The type parser (type.go, utils.go, argument.go)\<close>

text \<open>
  A string is a list of bytes, as in Go. The parser splits at the ASCII characters
  \<open>[\<close>, \<open>]\<close> and \<open>_\<close> and matches ASCII letters and digits only; the Unicode functions of the
  standard library that the field-name check uses are the fields of \<open>golib\<close>:
  \<open>runes\<close> gives the code points of a string as \<open>range\<close> yields them, \<open>unicode_IsLetter\<close>
  and \<open>unicode_IsDigit\<close> are the predicates of package \<open>unicode\<close>, and \<open>strings_ToUpper\<close> is
  \<open>strings.ToUpper\<close>.
\<close>

record golib =
  runes :: "string \<Rightarrow> nat list"
  unicode_IsLetter :: "nat \<Rightarrow> bool"
  unicode_IsDigit :: "nat \<Rightarrow> bool"
  strings_ToUpper :: "string \<Rightarrow> string"


text \<open>\<open>strings.Count(s, c)\<close> and \<open>strings.LastIndex(s, c)\<close> for a one-character \<open>c\<close>.\<close>

definition strCount :: "string \<Rightarrow> char \<Rightarrow> nat" where
  "strCount s c = length (filter (\<lambda>x. x = c) s)"








text \<open>\<open>strings.Split(s, "_")\<close>.\<close>

fun splitUnderscore :: "string \<Rightarrow> string list" where
  "splitUnderscore [] = [[]]"
| "splitUnderscore (c # cs) =
     (if c = CHR ''_'' then [] # splitUnderscore cs
      else (case splitUnderscore cs of p # ps \<Rightarrow> (c # p) # ps | [] \<Rightarrow> [[c]]))"

text \<open>\<open>ToCamelCase\<close>.\<close>

definition ToCamelCase :: "golib \<Rightarrow> string \<Rightarrow> string" where
  "ToCamelCase lib input =
     concat (map (\<lambda>s. if length s > 0 then strings_ToUpper lib (take 1 s) @ drop 1 s else s)
               (splitUnderscore input))"












lemma strCount_nonempty: "strCount s c \<noteq> 0 \<Longrightarrow> s \<noteq> []"
  by (auto simp: strCount_def)




section \<open>Notions for the statements\<close>



text \<open>
  The Types of the round trip: what \<open>NewType\<close> builds (neither \<open>HashTy\<close> nor
  \<open>FixedPointTy\<close>; fixed bytes of at most 32 bytes; a tuple with one raw name per field whose
  struct type has the Go types of the fields under distinct names), and no static array or
  tuple that occupies no byte.
\<close>

fun wfType :: "Type \<Rightarrow> bool" where
  "wfType (Elementary k sz s) =
     (k \<noteq> HashTy \<and> k \<noteq> FixedPointTy \<and> (if k = FixedBytesTy then 0 \<le> sz \<and> sz \<le> 32 else True))"
| "wfType (SliceTy e s) = wfType e"
| "wfType (ArrayTy n e s) = (wfType e \<and> 0 < getTypeSize (ArrayTy n e s))"
| "wfType (TupleTy es ns st s rn) =
     (list_all wfType es \<and> length ns = length es
      \<and> (case st of
            GoStruct fts \<Rightarrow> map snd fts = map GetType es \<and> distinct (map fst fts)
          | _ \<Rightarrow> False)
      \<and> 0 < getTypeSize (TupleTy es ns st s rn))"

fun isByteValue :: "Value \<Rightarrow> bool" where
  "isByteValue (VUint8 b) = True"
| "isByteValue v = False"

text \<open>
  A value conforms to a Type: it has the Go type \<open>GetType\<close> gives, a big integer lies in the
  range of 256 bits (unsigned or two's complement), and for a tuple the field mapper binds
  the raw names, in order, to the fields of the struct value.
\<close>

fun conforms :: "fieldmapper \<Rightarrow> Type \<Rightarrow> Value \<Rightarrow> bool" where
  "conforms M (Elementary k sz s) v =
     (if k = UintTy then
        (if reflectIntType True sz = GoBigInt
         then (case v of VBigInt n \<Rightarrow> 0 \<le> n \<and> n < 2 ^ 256 | _ \<Rightarrow> False)
         else typeOf v = reflectIntType True sz)
      else if k = IntTy then
        (if reflectIntType False sz = GoBigInt
         then (case v of VBigInt n \<Rightarrow> - (2 ^ 255) \<le> n \<and> n < 2 ^ 255 | _ \<Rightarrow> False)
         else typeOf v = reflectIntType False sz)
      else if k = BoolTy then typeOf v = GoBool
      else if k = StringTy then typeOf v = GoString
      else if k = AddressTy \<or> k = FixedBytesTy \<or> k = BytesTy \<or> k = FunctionTy then
        typeOf v = GetType (Elementary k sz s) \<and> list_all isByteValue (elemsOf v)
      else False)"
| "conforms M (SliceTy e s) v =
     (case v of
        VSlice g vs \<Rightarrow> g = GetType e \<and> list_all (conforms M e) vs
      | _ \<Rightarrow> False)"
| "conforms M (ArrayTy n e s) v =
     (case v of
        VArray g vs \<Rightarrow> g = GetType e \<and> int (length vs) = n \<and> list_all (conforms M e) vs
      | _ \<Rightarrow> False)"
| "conforms M (TupleTy es ns st s rn) v =
     (case v of
        VStruct fvs \<Rightarrow>
          (case st of
             GoStruct fts \<Rightarrow>
               map fst fvs = map fst fts
               \<and> list_all2 (\<lambda>e fv. conforms M e (snd fv)) es fvs
               \<and> (case M ns v of
                     Inl err \<Rightarrow> False
                   | Inr fieldmap \<Rightarrow> list_all2 (\<lambda>n ft. fieldmap n = fst ft) ns fts)
           | _ \<Rightarrow> False)
      | _ \<Rightarrow> False)"

section \<open>Instances for the examples\<close>

text \<open>The library functions on ASCII strings.\<close>

definition asciiLib :: golib where
  "asciiLib =
     \<lparr>runes = map of_char,
      unicode_IsLetter = (\<lambda>ch. False),
      unicode_IsDigit = (\<lambda>ch. 48 \<le> ch \<and> ch \<le> 57),
      strings_ToUpper = map (\<lambda>c. if (97::nat) \<le> of_char c \<and> of_char c \<le> (122::nat)
                                    then char_of (of_char c - (32::nat)) else c)\<rparr>"

text \<open>
  An instance of the field mapper: every raw name is bound to the struct field of its
  camel-cased name, the name \<open>NewType\<close> gives the field when no two names collide.
\<close>

definition camelCaseFields :: fieldmapper where
  "camelCaseFields argNames v = Inr (\<lambda>argName. ToCamelCase asciiLib argName)"

definition uint256 :: Type where
  "uint256 = Elementary UintTy 256 ''uint256''"


definition addressT :: Type where
  "addressT = Elementary AddressTy 20 ''address''"

section \<open>Properties\<close>


text \<open>
  C4. \<open>isDynamicType\<close> is true exactly for String, Bytes, every Slice, an Array whose element
  type is dynamic and a Tuple with at least one dynamic field; it is false for every other
  type (the other elementary kinds, static arrays and tuples of static types).
\<close>

theorem isDynamicType_classification:
  "isDynamicType t =
     (case t of
        Elementary k sz s \<Rightarrow> k = StringTy \<or> k = BytesTy
      | SliceTy e s \<Rightarrow> True
      | ArrayTy n e s \<Rightarrow> isDynamicType e
      | TupleTy es ns st s rn \<Rightarrow> (\<exists>e \<in> set es. isDynamicType e))"
  by (cases t) (simp_all add: list_ex_iff)

theorem isDynamicType_classification_witness:
  "isDynamicType (Elementary StringTy 0 ''string'')
   \<and> isDynamicType (SliceTy (Elementary BoolTy 0 ''bool'') ''bool[]'')
   \<and> \<not> isDynamicType (ArrayTy 2 (Elementary UintTy 256 ''uint256'') ''uint256[2]'')
   \<and> isDynamicType (TupleTy [Elementary UintTy 8 ''uint8'', Elementary BytesTy 0 ''bytes'']
        [''a'', ''b''] (GoStruct [(''A'', GoUint8), (''B'', GoSlice GoUint8)]) ''(uint8,bytes)'' [])"
  using isDynamicType_classification
    [of "TupleTy [Elementary UintTy 8 ''uint8'', Elementary BytesTy 0 ''bytes'']
        [''a'', ''b''] (GoStruct [(''A'', GoUint8), (''B'', GoSlice GoUint8)]) ''(uint8,bytes)'' []"]
  by simp



subsection \<open>Empty input and booleans\<close>

text \<open>
  C6. \<open>Unpack\<close> of the empty byte string succeeds with the empty value list when the
  argument list has no non-indexed argument, and fails with the empty-input error, without
  any value, when it has one.
\<close>

theorem Unpack_empty:
  "Unpack arguments [] =
     (if \<exists>arg \<in> set arguments. \<not> Indexed arg then Inl errEmptyInput else Inr [])"
  by (auto simp: Unpack_def NonIndexed_def filter_empty_conv)

theorem Unpack_empty_witness:
  "Unpack [\<lparr>Name = ''from'', Type = addressT, Indexed = True\<rparr>,
           \<lparr>Name = ''value'', Type = uint256, Indexed = False\<rparr>] [] = Inl errEmptyInput
   \<and> Unpack [\<lparr>Name = ''from'', Type = addressT, Indexed = True\<rparr>] [] = Inr []"
  using Unpack_empty [of "[\<lparr>Name = ''from'', Type = addressT, Indexed = True\<rparr>,
           \<lparr>Name = ''value'', Type = uint256, Indexed = False\<rparr>]"]
    Unpack_empty [of "[\<lparr>Name = ''from'', Type = addressT, Indexed = True\<rparr>]"]
  by simp

lemma list_ex_nonzero:
  "list_ex (\<lambda>b. b \<noteq> (0::byte)) xs = (xs \<noteq> replicate (length xs) 0)"
  by (induction xs) auto

text \<open>
  C7. A 32-byte word decodes as a bool exactly when its first 31 bytes are zero and its
  last byte is 0 (false) or 1 (true); every other word gives \<open>errBadBool\<close>. This is
  \<open>readBool\<close>, and \<open>toGoType\<close> at a bool type returns its result.
\<close>

theorem readBool_spec:
  assumes "length word = 32"
  shows "readBool word =
           (if take 31 word = replicate 31 0 \<and> word ! 31 = 0 then Inr False
            else if take 31 word = replicate 31 0 \<and> word ! 31 = 1 then Inr True
            else Inl errBadBool)
         \<and> toGoType 0 (Elementary BoolTy sz s) word =
             (case readBool word of Inl err \<Rightarrow> Inl err | Inr b \<Rightarrow> Inr (VBool b))"
  using assms by (simp add: readBool_def toGoTypeHead_def goslice_def list_ex_nonzero)

theorem readBool_spec_witness:
  "readBool (replicate 31 0 @ [2]) = Inl errBadBool
   \<and> readBool (replicate 31 0 @ [1]) = Inr True
   \<and> toGoType 0 (Elementary BoolTy 0 ''bool'') (replicate 31 0 @ [2]) = Inl errBadBool"
  using readBool_spec [of "replicate 31 0 @ [2]" 0 "''bool''"]
    readBool_spec [of "replicate 31 0 @ [1]" 0 "''bool''"]
  by (simp add: nth_append)

subsection \<open>Argument lists\<close>

lemma packInt_Inr: "packInt n = Inr (U256Bytes (sint (word_of_int n :: 64 word)))"
  by (simp add: packInt_def)

lemma packNum_nce: "packNum v \<noteq> Inl (errArgumentCountMismatch a b)"
  by (cases v) auto

lemma bytesOf_nce: "bytesOf vs \<noteq> Inl (errArgumentCountMismatch a b)"
  by (induction vs) (auto split: option.splits sum.splits)

lemma Bytes_nce: "Bytes v \<noteq> Inl (errArgumentCountMismatch a b)"
  by (cases v) (auto simp: bytesOf_nce)

lemma mustArrayToByteSlice_nce: "mustArrayToByteSlice v \<noteq> Inl (errArgumentCountMismatch a b)"
  by (cases v) auto

lemma packElement_nce: "packElement t v \<noteq> Inl (errArgumentCountMismatch a b)"
  by (cases "(t, v)" rule: packElement.cases)
     (auto simp: packNum_nce Bytes_nce mustArrayToByteSlice_nce packBytesSlice_def packInt_Inr
           split: sum.splits Value.splits if_splits)

lemma sliceTypeCheck_nce: "sliceTypeCheck t v \<noteq> Some (errArgumentCountMismatch a b)"
  by (induction t v rule: sliceTypeCheck.induct) auto

lemma typeCheck_nce: "typeCheck t v \<noteq> Some (errArgumentCountMismatch a b)"
  by (cases t) (auto simp: sliceTypeCheck_nce)

lemma indirect_nce: "indirect v \<noteq> Inl (errArgumentCountMismatch a b)"
  by (cases v) auto

lemma FieldByName_nce: "FieldByName v n \<noteq> Inl (errArgumentCountMismatch a b)"
  by (cases v) auto

lemma packArrayLoop_nce:
  "(\<And>x. x \<in> set xs \<Longrightarrow> pk x \<noteq> Inl (errArgumentCountMismatch a b)) \<Longrightarrow>
   packArrayLoop pk offsetReq xs offset ret tail \<noteq> Inl (errArgumentCountMismatch a b)"
  by (induction pk offsetReq xs offset ret tail rule: packArrayLoop.induct)
     (auto simp: packInt_Inr split: sum.splits)

lemma packTupleLoop_nce:
  assumes "\<forall>p \<in> set ps. \<forall>x. fst p x \<noteq> Inl (errArgumentCountMismatch a b)"
  shows "packTupleLoop fieldmap v names i ps offset ret tail \<noteq> Inl (errArgumentCountMismatch a b)"
  using assms
proof (induction ps arbitrary: i offset ret tail)
  case Nil
  then show ?case by simp
next
  case (Cons p ps)
  obtain pk dyn where p: "p = (pk, dyn)" by (cases p)
  have pk: "\<And>x. pk x \<noteq> Inl (errArgumentCountMismatch a b)"
    using Cons.prems p by auto
  have rest: "\<And>i offset ret tail.
      packTupleLoop fieldmap v names i ps offset ret tail \<noteq> Inl (errArgumentCountMismatch a b)"
    using Cons by auto
  show ?case
    using pk rest
    by (auto simp: p packInt_Inr FieldByName_nce split: sum.splits option.splits)
qed

lemma pack_nce:
  assumes M: "\<And>ns v. M ns v \<noteq> Inl (errArgumentCountMismatch a b)"
  shows "pack M t v \<noteq> Inl (errArgumentCountMismatch a b)"
proof (induction t arbitrary: v)
  case (Elementary k sz s)
  show ?case
    by (auto simp: indirect_nce typeCheck_nce packElement_nce split: sum.splits option.splits
             simp del: typeCheck.simps packElement.simps)
next
  case (SliceTy e s)
  show ?case
    using SliceTy
    by (auto simp: indirect_nce sliceTypeCheck_nce packInt_Inr packArrayLoop_nce
             split: sum.splits option.splits simp del: sliceTypeCheck.simps)
next
  case (ArrayTy n e s)
  show ?case
    using ArrayTy
    by (auto simp: indirect_nce sliceTypeCheck_nce packInt_Inr packArrayLoop_nce
             split: sum.splits option.splits simp del: sliceTypeCheck.simps)
next
  case (TupleTy es ns st s rn)
  have "\<forall>p \<in> set (map (\<lambda>elem. (\<lambda>x. pack M elem x, isDynamicType elem)) es).
          \<forall>x. fst p x \<noteq> Inl (errArgumentCountMismatch a b)"
    using TupleTy by auto
  then show ?case
    using M
    by (auto simp: indirect_nce packTupleLoop_nce split: sum.splits option.splits if_splits)
qed

lemma PackLoop_nce:
  assumes M: "\<And>ns v. M ns v \<noteq> Inl (errArgumentCountMismatch a b)"
  shows "PackLoop M abiArgs args inputOffset ret variableInput \<noteq> Inl (errArgumentCountMismatch a b)"
proof (induction args arbitrary: abiArgs inputOffset ret variableInput)
  case Nil
  then show ?case by simp
next
  case (Cons x xs)
  then show ?case
    by (cases abiArgs) (auto simp: packInt_Inr pack_nce [OF M] split: sum.splits)
qed

text \<open>
  C8. \<open>Pack\<close> fails with the argument-count-mismatch error whenever the number of values
  differs from the number of arguments, indexed and non-indexed together; it goes on to
  encode only when the two agree: provided the field mapper does not itself return that
  error, \<open>Pack\<close> returns it only when the counts differ.
\<close>

theorem Pack_argument_count:
  "(length args \<noteq> length arguments \<longrightarrow>
      Pack M arguments args =
        Inl (errArgumentCountMismatch (int (length args)) (int (length arguments))))
   \<and> length arguments = length (NonIndexed arguments) + length (filter Indexed arguments)
   \<and> ((\<forall>ns v. M ns v \<noteq> Inl (errArgumentCountMismatch a b)) \<longrightarrow>
        Pack M arguments args = Inl (errArgumentCountMismatch a b) \<longrightarrow>
        length args \<noteq> length arguments)"
proof (intro conjI impI)
  assume "length args \<noteq> length arguments"
  then show "Pack M arguments args =
      Inl (errArgumentCountMismatch (int (length args)) (int (length arguments)))"
    by (simp add: Pack_def)
next
  show "length arguments = length (NonIndexed arguments) + length (filter Indexed arguments)"
    by (simp add: NonIndexed_def sum_length_filter_compl add.commute)
next
  assume M: "\<forall>ns v. M ns v \<noteq> Inl (errArgumentCountMismatch a b)"
    and P: "Pack M arguments args = Inl (errArgumentCountMismatch a b)"
  have "PackLoop M arguments args
          (foldl (\<lambda>inputOffset abiArg. inputOffset + getTypeSize (Type abiArg)) 0 arguments) [] []
        \<noteq> Inl (errArgumentCountMismatch a b)"
    by (rule PackLoop_nce) (use M in blast)
  with P show "length args \<noteq> length arguments"
    by (auto simp: Pack_def split: if_splits)
qed

theorem Pack_argument_count_witness:
  "Pack camelCaseFields
     [\<lparr>Name = ''from'', Type = addressT, Indexed = True\<rparr>,
      \<lparr>Name = ''value'', Type = uint256, Indexed = False\<rparr>] [VBigInt 1]
   = Inl (errArgumentCountMismatch 1 2)"
  using Pack_argument_count [of "[VBigInt 1]"
     "[\<lparr>Name = ''from'', Type = addressT, Indexed = True\<rparr>,
       \<lparr>Name = ''value'', Type = uint256, Indexed = False\<rparr>]" camelCaseFields 1 2]
  by simp








subsection \<open>Word alignment of the encoding\<close>

text \<open>
  C10 fails on an address argument: \<open>typeCheck\<close> compares the kinds only (it checks the
  length for \<open>FixedBytesTy\<close> alone), so an array of 33 bytes is accepted for an address, and
  \<open>LeftPadBytes\<close> returns it unpadded. The encoding has 33 bytes.
\<close>

theorem Pack_address_unaligned:
  "Pack camelCaseFields [\<lparr>Name = ''to'', Type = addressT, Indexed = False\<rparr>]
     [VArray GoUint8 (replicate 33 (VUint8 1))] = Inr (replicate 33 1)"
  by code_simp

theorem Pack_address_unaligned_witness:
  "\<exists>bs. Pack camelCaseFields [\<lparr>Name = ''to'', Type = addressT, Indexed = False\<rparr>]
     [VArray GoUint8 (replicate 33 (VUint8 1))] = Inr bs \<and> length bs mod 32 = 1"
  using Pack_address_unaligned by simp

subsection \<open>The canonical string of a parsed type\<close>










subsection \<open>Offsets and lengths of the decoder\<close>







lemma forTupleLoop_short:
  assumes "ds \<noteq> []" "fst (hd ds) ((int index + virtualArgs) * 32) = Inl err"
  shows "forTupleLoop st ds index virtualArgs retval = Inl err"
  using assms by (cases ds) (auto split: prod.splits)



lemma foldl_SetBytes:
  "foldl (\<lambda>a b. a * 256 + uint b) a (bs::byte list) = a * 256 ^ length bs + SetBytes bs"
proof (induction bs arbitrary: a)
  case Nil
  then show ?case by (simp add: SetBytes_def)
next
  case (Cons b bs)
  have "foldl (\<lambda>a b. a * 256 + uint b) a (b # bs)
          = (a * 256 + uint b) * 256 ^ length bs + SetBytes bs"
    using Cons [of "a * 256 + uint b"] by simp
  moreover have "SetBytes (b # bs) = uint b * 256 ^ length bs + SetBytes bs"
    using Cons [of "uint b"] by (simp add: SetBytes_def)
  ultimately show ?case by (simp add: algebra_simps)
qed


lemma SetBytes_Cons: "SetBytes (b # bs) = uint b * 256 ^ length bs + SetBytes bs"
  using foldl_SetBytes [of "uint b" bs] by (simp add: SetBytes_def)

lemma SetBytes_less: "SetBytes bs < 256 ^ length bs"
proof (induction bs)
  case Nil
  then show ?case by (simp add: SetBytes_def)
next
  case (Cons b bs)
  define P :: int where "P = 256 ^ length bs"
  have "uint b \<le> 255" using uint_lt2p [of b] by simp
  moreover have "0 \<le> P" by (simp add: P_def)
  ultimately have "uint b * P \<le> 255 * P"
    by (rule mult_right_mono)
  moreover have "SetBytes bs < P" using Cons by (simp add: P_def)
  ultimately have "uint b * P + SetBytes bs < 256 * P" by linarith
  then show ?case by (simp add: SetBytes_Cons P_def)
qed






end
